theory Spec2Isabelle
  imports Main "HOL-Library.Word"
begin

section \<open>Data model of SceneManager.cpp\<close>

text \<open>
  The scene manager keeps two registries (loaded textures, defined materials) and talks to
  three collaborators that are not part of the file: the image decoder (stb_image), the GL
  context and the shader manager. The calls made to the collaborators are recorded in
  logs, in the order the code makes them. Console output (\<open>std::cout\<close>) is not recorded.

  A \<open>float\<close> is carried as its IEEE-754 single-precision bit pattern. The functions
  modelled here only store, copy and forward floats; all float arithmetic happens inside
  glm, which is a parameter of the one function that uses it.
\<close>

type_synonym float = "32 word"
type_synonym GLuint = "32 word"
type_synonym vec2 = "float \<times> float"
type_synonym vec3 = "float \<times> float \<times> float"
type_synonym vec4 = "float \<times> float \<times> float \<times> float"
type_synonym mat4 = "vec4 \<times> vec4 \<times> vec4 \<times> vec4"

record TEXTURE_INFO =
  tex_tag :: string
  tex_ID :: GLuint

record OBJECT_MATERIAL =
  diffuseColor :: vec3
  specularColor :: vec3
  shininess :: float
  mat_tag :: string

text \<open>What stbi_load hands back for a file that could be decoded.\<close>

record image =
  width :: int
  height :: int
  colorChannels :: int

datatype gl_enum =
    GL_TEXTURE_2D | GL_TEXTURE_WRAP_S | GL_TEXTURE_WRAP_T | GL_REPEAT
  | GL_TEXTURE_MIN_FILTER | GL_TEXTURE_MAG_FILTER | GL_LINEAR
  | GL_RGB8 | GL_RGB | GL_RGBA8 | GL_RGBA | GL_UNSIGNED_BYTE

text \<open>
  The calls into stb_image and OpenGL. \<open>glGenTextures n\<close> records the texture name the
  driver returned; \<open>glDeleteTextures\<close> is the call that releases a texture object.
\<close>

datatype lib_call =
    stbi_set_flip_vertically_on_load bool
  | stbi_load string
  | stbi_image_free
  | glGenTextures GLuint
  | glDeleteTextures GLuint
  | glBindTexture gl_enum GLuint
  | glTexParameteri gl_enum gl_enum gl_enum
  | glTexImage2D gl_enum int gl_enum int int int gl_enum gl_enum
  | glGenerateMipmap gl_enum
  | glActiveTexture int

datatype uniform =
    IntValue int
  | BoolValue bool
  | FloatValue float
  | Vec2Value vec2
  | Vec3Value vec3
  | Vec4Value vec4
  | Mat4Value mat4
  | Sampler2DValue int

text \<open>The shader manager is seen through the uniforms submitted to it, oldest first.\<close>

type_synonym ShaderManager = "(string \<times> uniform) list"

text \<open>
  The GL context: the calls made so far and the next unused texture name.
\<close>

record gl_context =
  gl_calls :: "lib_call list"
  gl_next_name :: GLuint

text \<open>
  The members of the class the functions below use, and the GL context their calls act on.
  \<open>m_pShaderManager\<close> is a pointer: \<open>None\<close> is NULL. \<open>m_textureIDs\<close> is a
  fixed-size array; its length is the declared size. \<open>m_basicMeshes\<close> is left out: no
  function modelled here touches it.
\<close>

record SceneManager =
  m_pShaderManager :: "ShaderManager option"
  m_loadedTextures :: int
  m_textureIDs :: "TEXTURE_INFO list"
  m_objectMaterials :: "OBJECT_MATERIAL list"
  gl :: gl_context

text \<open>
  C++ leaves an out-of-range array access and a null dereference undefined; the model
  stops with an error value that names the offending index.
\<close>

datatype error = ArrayIndexOutOfBounds int | NullPointerDereference

definition g_ModelName :: string where "g_ModelName = ''model''"
definition g_ColorValueName :: string where "g_ColorValueName = ''objectColor''"
definition g_TextureValueName :: string where "g_TextureValueName = ''objectTexture''"
definition g_UseTextureName :: string where "g_UseTextureName = ''bUseTexture''"
definition g_UseLightingName :: string where "g_UseLightingName = ''bUseLighting''"

section \<open>Material registry\<close>

text \<open>
  The loop of FindMaterial, with its three variables: \<open>index\<close>, \<open>bFound\<close> and the
  caller's \<open>material\<close> (passed by reference; only three of its fields are assigned).
\<close>

function FindMaterial_loop ::
  "OBJECT_MATERIAL list \<Rightarrow> string \<Rightarrow> nat \<Rightarrow> bool \<Rightarrow> OBJECT_MATERIAL \<Rightarrow> bool \<times> OBJECT_MATERIAL"
where
  "FindMaterial_loop mats tag index bFound material =
     (if index < length mats \<and> bFound = False then
        (if mat_tag (mats ! index) = tag then
           FindMaterial_loop mats tag index True
             (material\<lparr>diffuseColor := diffuseColor (mats ! index),
                       specularColor := specularColor (mats ! index),
                       shininess := shininess (mats ! index)\<rparr>)
         else FindMaterial_loop mats tag (index + 1) bFound material)
      else (bFound, material))"
  by pat_completeness auto
termination
  by (relation "measure (\<lambda>(mats, tag, index, bFound, material).
        2 * (length mats - index) + (if bFound then 0 else 1))") auto

declare FindMaterial_loop.simps [simp del]

text \<open>
  FindMaterial returns its bool and leaves the result in the reference parameter; the
  model returns both. The value of \<open>bFound\<close> is dropped: the last statement
  is \<open>return(true)\<close>.
\<close>

definition FindMaterial ::
  "string \<Rightarrow> OBJECT_MATERIAL \<Rightarrow> SceneManager \<Rightarrow> bool \<times> OBJECT_MATERIAL"
where
  "FindMaterial tag material s =
     (if length (m_objectMaterials s) = 0 then (False, material)
      else (case FindMaterial_loop (m_objectMaterials s) tag 0 False material of
              (bFound, material') \<Rightarrow> (True, material')))"

text \<open>One \<open>m_objectMaterials.push_back(m)\<close>.\<close>

definition objectMaterials_push_back :: "OBJECT_MATERIAL \<Rightarrow> SceneManager \<Rightarrow> SceneManager" where
  "objectMaterials_push_back m s = s\<lparr>m_objectMaterials := m_objectMaterials s @ [m]\<rparr>"

definition DefineObjectMaterials :: "SceneManager \<Rightarrow> SceneManager" where
  "DefineObjectMaterials s =
     (let goldMaterial = \<lparr>diffuseColor = (0x3E99999A, 0x3E99999A, 0x3E4CCCCD),
                          specularColor = (0x3F19999A, 0x3F000000, 0x3ECCCCCD),
                          shininess = 0x41B00000, mat_tag = ''gold''\<rparr>;
          cementMaterial = \<lparr>diffuseColor = (0x3F000000, 0x3F000000, 0x3F000000),
                            specularColor = (0x3ECCCCCD, 0x3ECCCCCD, 0x3ECCCCCD),
                            shininess = 0x3F000000, mat_tag = ''cement''\<rparr>;
          woodMaterial = \<lparr>diffuseColor = (0x3E99999A, 0x3E4CCCCD, 0x3DCCCCCD),
                          specularColor = (0x3DCCCCCD, 0x3DCCCCCD, 0x3DCCCCCD),
                          shininess = 0x3E99999A, mat_tag = ''wood''\<rparr>;
          tileMaterial = \<lparr>diffuseColor = (0x3E99999A, 0x3E4CCCCD, 0x3DCCCCCD),
                          specularColor = (0x3ECCCCCD, 0x3F000000, 0x3F19999A),
                          shininess = 0x41C80000, mat_tag = ''tile''\<rparr>;
          glassMaterial = \<lparr>diffuseColor = (0x3E99999A, 0x3E99999A, 0x3E99999A),
                           specularColor = (0x3F19999A, 0x3F19999A, 0x3F19999A),
                           shininess = 0x42AA0000, mat_tag = ''glass''\<rparr>;
          clayMaterial = \<lparr>diffuseColor = (0x3ECCCCCD, 0x3ECCCCCD, 0x3F000000),
                          specularColor = (0x3E4CCCCD, 0x3E4CCCCD, 0x3ECCCCCD),
                          shininess = 0x3F000000, mat_tag = ''clay''\<rparr>;
          plasticClear = \<lparr>diffuseColor = (0x3F733333, 0x3F733333, 0x3F733333),
                          specularColor = (0x3F400000, 0x3F400000, 0x3F400000),
                          shininess = 0x42C00000, mat_tag = ''plasticClear''\<rparr>
      in objectMaterials_push_back plasticClear
          (objectMaterials_push_back clayMaterial
            (objectMaterials_push_back glassMaterial
              (objectMaterials_push_back tileMaterial
                (objectMaterials_push_back woodMaterial
                  (objectMaterials_push_back cementMaterial
                    (objectMaterials_push_back goldMaterial s)))))))"

section \<open>Calls into the collaborators\<close>

definition seq :: "error + 'a \<Rightarrow> ('a \<Rightarrow> error + 'b) \<Rightarrow> error + 'b" where
  "seq r f = (case r of Inl e \<Rightarrow> Inl e | Inr x \<Rightarrow> f x)"

definition call :: "lib_call \<Rightarrow> SceneManager \<Rightarrow> SceneManager" where
  "call c s = gl_update (gl_calls_update (\<lambda>calls. calls @ [c])) s"

text \<open>
  \<open>glGenTextures(1, &id)\<close>: the driver hands out an unused texture name.
\<close>

definition genTexture :: "SceneManager \<Rightarrow> GLuint \<times> SceneManager" where
  "genTexture s =
     (let name = gl_next_name (gl s)
      in (name, gl_update (\<lambda>ctx. ctx\<lparr>gl_calls := gl_calls ctx @ [glGenTextures name],
                                      gl_next_name := name + 1\<rparr>) s))"

text \<open>
  \<open>m_pShaderManager->set...Value(name, v)\<close>: dereferences the pointer.
\<close>

definition setValue :: "string \<Rightarrow> uniform \<Rightarrow> SceneManager \<Rightarrow> error + SceneManager" where
  "setValue name v s =
     (case m_pShaderManager s of
        None \<Rightarrow> Inl NullPointerDereference
      | Some sh \<Rightarrow> Inr (s\<lparr>m_pShaderManager := Some (sh @ [(name, v)])\<rparr>))"

definition GL_TEXTURE0 :: int where "GL_TEXTURE0 = 0x84C0"

section \<open>Texture registry\<close>

text \<open>
  CreateGLTexture. \<open>stbi\<close> is the image decoder applied to the file system: \<open>None\<close> is
  the null pointer stbi_load returns for a file it cannot read or decode. The two
  assignments to \<open>m_textureIDs[m_loadedTextures]\<close> have no bounds check in the source.
  \<open>CreateGLTexture_register\<close> is the tail of the function that both accepted channel
  counts reach: mipmaps, freeing the image, unbinding, and the registration.
\<close>

definition CreateGLTexture_register ::
  "GLuint \<Rightarrow> string \<Rightarrow> SceneManager \<Rightarrow> error + (bool \<times> SceneManager)"
where
  "CreateGLTexture_register textureID tag s =
     (let s1 = call (glGenerateMipmap GL_TEXTURE_2D) s;
          s2 = call stbi_image_free s1;
          s3 = call (glBindTexture GL_TEXTURE_2D 0) s2;
          k = m_loadedTextures s3
      in if 0 \<le> k \<and> k < int (length (m_textureIDs s3)) then
           Inr (True,
                s3\<lparr>m_textureIDs :=
                      (m_textureIDs s3)
                        [nat k := (m_textureIDs s3 ! nat k)\<lparr>tex_ID := textureID, tex_tag := tag\<rparr>],
                    m_loadedTextures := k + 1\<rparr>)
         else Inl (ArrayIndexOutOfBounds k))"

definition CreateGLTexture ::
  "(string \<Rightarrow> image option) \<Rightarrow> string \<Rightarrow> string \<Rightarrow> SceneManager \<Rightarrow> error + (bool \<times> SceneManager)"
where
  "CreateGLTexture stbi filename tag s =
     (let s1 = call (stbi_set_flip_vertically_on_load True) s;
          s2 = call (stbi_load filename) s1
      in case stbi filename of
           Some img \<Rightarrow>
             (let (textureID, s3) = genTexture s2;
                  s4 = call (glBindTexture GL_TEXTURE_2D textureID) s3;
                  s5 = call (glTexParameteri GL_TEXTURE_2D GL_TEXTURE_WRAP_S GL_REPEAT) s4;
                  s6 = call (glTexParameteri GL_TEXTURE_2D GL_TEXTURE_WRAP_T GL_REPEAT) s5;
                  s7 = call (glTexParameteri GL_TEXTURE_2D GL_TEXTURE_MIN_FILTER GL_LINEAR) s6;
                  s8 = call (glTexParameteri GL_TEXTURE_2D GL_TEXTURE_MAG_FILTER GL_LINEAR) s7
              in if colorChannels img = 3 then
                   CreateGLTexture_register textureID tag
                     (call (glTexImage2D GL_TEXTURE_2D 0 GL_RGB8 (width img) (height img) 0
                              GL_RGB GL_UNSIGNED_BYTE) s8)
                 else if colorChannels img = 4 then
                   CreateGLTexture_register textureID tag
                     (call (glTexImage2D GL_TEXTURE_2D 0 GL_RGBA8 (width img) (height img) 0
                              GL_RGBA GL_UNSIGNED_BYTE) s8)
                 else Inr (False, s8))
         | None \<Rightarrow> Inr (False, s2))"

text \<open>BindGLTextures: \<open>for (int i = 0; i < m_loadedTextures; i++)\<close>.\<close>

function BindGLTextures_loop :: "int \<Rightarrow> SceneManager \<Rightarrow> error + SceneManager" where
  "BindGLTextures_loop i s =
     (if i < m_loadedTextures s then
        (if 0 \<le> i \<and> i < int (length (m_textureIDs s)) then
           BindGLTextures_loop (i + 1)
             (call (glBindTexture GL_TEXTURE_2D (tex_ID (m_textureIDs s ! nat i)))
                (call (glActiveTexture (GL_TEXTURE0 + i)) s))
         else Inl (ArrayIndexOutOfBounds i))
      else Inr s)"
  by pat_completeness auto
termination
  by (relation "measure (\<lambda>(i, s). nat (m_loadedTextures s - i))") (auto simp: call_def)

declare BindGLTextures_loop.simps [simp del]

definition BindGLTextures :: "SceneManager \<Rightarrow> error + SceneManager" where
  "BindGLTextures s = BindGLTextures_loop 0 s"

text \<open>
  DestroyGLTextures: the body of the loop is \<open>glGenTextures(1, &m_textureIDs[i].ID)\<close>,
  which stores a newly generated name over the registered one.
\<close>

function DestroyGLTextures_loop :: "int \<Rightarrow> SceneManager \<Rightarrow> error + SceneManager" where
  "DestroyGLTextures_loop i s =
     (if i < m_loadedTextures s then
        (if 0 \<le> i \<and> i < int (length (m_textureIDs s)) then
           (let (name, s1) = genTexture s
            in DestroyGLTextures_loop (i + 1)
                 (s1\<lparr>m_textureIDs :=
                       (m_textureIDs s1)[nat i := (m_textureIDs s1 ! nat i)\<lparr>tex_ID := name\<rparr>]\<rparr>))
         else Inl (ArrayIndexOutOfBounds i))
      else Inr s)"
  by pat_completeness auto
termination
  by (relation "measure (\<lambda>(i, s). nat (m_loadedTextures s - i))") (auto simp: genTexture_def Let_def)

declare DestroyGLTextures_loop.simps [simp del]

definition DestroyGLTextures :: "SceneManager \<Rightarrow> error + SceneManager" where
  "DestroyGLTextures s = DestroyGLTextures_loop 0 s"

text \<open>
  FindTextureID and FindTextureSlot: the same loop; one returns the stored name, the
  other the index. Both start from \<open>-1\<close>.
\<close>

function FindTextureID_loop ::
  "SceneManager \<Rightarrow> string \<Rightarrow> int \<Rightarrow> bool \<Rightarrow> int \<Rightarrow> error + int"
where
  "FindTextureID_loop s tag index bFound textureID =
     (if index < m_loadedTextures s \<and> bFound = False then
        (if 0 \<le> index \<and> index < int (length (m_textureIDs s)) then
           (if tex_tag (m_textureIDs s ! nat index) = tag then
              FindTextureID_loop s tag index True (sint (tex_ID (m_textureIDs s ! nat index)))
            else FindTextureID_loop s tag (index + 1) bFound textureID)
         else Inl (ArrayIndexOutOfBounds index))
      else Inr textureID)"
  by pat_completeness auto
termination
  by (relation "measure (\<lambda>(s, tag, index, bFound, textureID).
        2 * nat (m_loadedTextures s - index) + (if bFound then 0 else 1))") auto

declare FindTextureID_loop.simps [simp del]

definition FindTextureID :: "string \<Rightarrow> SceneManager \<Rightarrow> error + int" where
  "FindTextureID tag s = FindTextureID_loop s tag 0 False (- 1)"

function FindTextureSlot_loop ::
  "SceneManager \<Rightarrow> string \<Rightarrow> int \<Rightarrow> bool \<Rightarrow> int \<Rightarrow> error + int"
where
  "FindTextureSlot_loop s tag index bFound textureSlot =
     (if index < m_loadedTextures s \<and> bFound = False then
        (if 0 \<le> index \<and> index < int (length (m_textureIDs s)) then
           (if tex_tag (m_textureIDs s ! nat index) = tag then
              FindTextureSlot_loop s tag index True index
            else FindTextureSlot_loop s tag (index + 1) bFound textureSlot)
         else Inl (ArrayIndexOutOfBounds index))
      else Inr textureSlot)"
  by pat_completeness auto
termination
  by (relation "measure (\<lambda>(s, tag, index, bFound, textureSlot).
        2 * nat (m_loadedTextures s - index) + (if bFound then 0 else 1))") auto

declare FindTextureSlot_loop.simps [simp del]

definition FindTextureSlot :: "string \<Rightarrow> SceneManager \<Rightarrow> error + int" where
  "FindTextureSlot tag s = FindTextureSlot_loop s tag 0 False (- 1)"

text \<open>
  LoadSceneTextures: eight loads, whose results are assigned to \<open>bReturn\<close> and never
  read, then BindGLTextures.
\<close>

definition LoadSceneTextures :: "(string \<Rightarrow> image option) \<Rightarrow> SceneManager \<Rightarrow> error + SceneManager" where
  "LoadSceneTextures stbi s =
     seq (CreateGLTexture stbi ''textures/Onyx011_2K-JPG_Color.jpg'' ''onyx'' s) (\<lambda>(bReturn, s).
     seq (CreateGLTexture stbi ''textures/Ice002_2K-JPG_Color.jpg'' ''ice'' s) (\<lambda>(bReturn, s).
     seq (CreateGLTexture stbi ''textures/Wood066_2K-JPG_Color.jpg'' ''wood'' s) (\<lambda>(bReturn, s).
     seq (CreateGLTexture stbi ''textures/Ground035_4K-JPG_Color.jpg'' ''ground'' s) (\<lambda>(bReturn, s).
     seq (CreateGLTexture stbi ''textures/Concrete044D_2K-JPG_Color.jpg'' ''concrete'' s) (\<lambda>(bReturn, s).
     seq (CreateGLTexture stbi ''textures/Metal049A_2K-JPG_Color.jpg'' ''metal'' s) (\<lambda>(bReturn, s).
     seq (CreateGLTexture stbi ''textures/Wood032_2K-JPG_Color.jpg'' ''wood2'' s) (\<lambda>(bReturn, s).
     seq (CreateGLTexture stbi ''textures/meat_color_2k.jpg'' ''meat'' s) (\<lambda>(bReturn, s).
     BindGLTextures s))))))))"

section \<open>Uniform submission\<close>

text \<open>
  The glm library is not part of the file; SetTransformations takes the five glm
  operations it uses as a parameter.
\<close>

record glm =
  glm_scale :: "vec3 \<Rightarrow> mat4"
  glm_rotate :: "float \<Rightarrow> vec3 \<Rightarrow> mat4"
  glm_translate :: "vec3 \<Rightarrow> mat4"
  glm_radians :: "float \<Rightarrow> float"
  glm_mul :: "mat4 \<Rightarrow> mat4 \<Rightarrow> mat4"

text \<open>The float literals \<open>1.0f\<close> and \<open>0.0f\<close>.\<close>

definition f_1_0 :: float where "f_1_0 = 0x3F800000"
definition f_0_0 :: float where "f_0_0 = 0"

definition SetTransformations ::
  "glm \<Rightarrow> vec3 \<Rightarrow> float \<Rightarrow> float \<Rightarrow> float \<Rightarrow> vec3 \<Rightarrow> SceneManager \<Rightarrow> error + SceneManager"
where
  "SetTransformations g scaleXYZ XrotationDegrees YrotationDegrees ZrotationDegrees positionXYZ s =
     (let scale = glm_scale g scaleXYZ;
          rotationX = glm_rotate g (glm_radians g XrotationDegrees) (f_1_0, f_0_0, f_0_0);
          rotationY = glm_rotate g (glm_radians g YrotationDegrees) (f_0_0, f_1_0, f_0_0);
          rotationZ = glm_rotate g (glm_radians g ZrotationDegrees) (f_0_0, f_0_0, f_1_0);
          translation = glm_translate g positionXYZ;
          modelView =
            glm_mul g (glm_mul g (glm_mul g (glm_mul g translation rotationZ) rotationY) rotationX) scale
      in if m_pShaderManager s \<noteq> None then setValue g_ModelName (Mat4Value modelView) s
         else Inr s)"

definition SetShaderColor :: "float \<Rightarrow> float \<Rightarrow> float \<Rightarrow> float \<Rightarrow> SceneManager \<Rightarrow> error + SceneManager" where
  "SetShaderColor redColorValue greenColorValue blueColorValue alphaValue s =
     (let currentColor = (redColorValue, greenColorValue, blueColorValue, alphaValue)
      in if m_pShaderManager s \<noteq> None then
           seq (setValue g_UseTextureName (IntValue 0) s)
             (setValue g_ColorValueName (Vec4Value currentColor))
         else Inr s)"

definition SetShaderTexture :: "string \<Rightarrow> SceneManager \<Rightarrow> error + SceneManager" where
  "SetShaderTexture textureTag s =
     (if m_pShaderManager s \<noteq> None then
        seq (setValue g_UseTextureName (IntValue 1) s) (\<lambda>s1.
        seq (FindTextureSlot textureTag s1) (\<lambda>textureID.
        setValue g_TextureValueName (Sampler2DValue textureID) s1))
      else Inr s)"

definition SetTextureUVScale :: "float \<Rightarrow> float \<Rightarrow> SceneManager \<Rightarrow> error + SceneManager" where
  "SetTextureUVScale u v s =
     (if m_pShaderManager s \<noteq> None then setValue ''UVscale'' (Vec2Value (u, v)) s
      else Inr s)"

text \<open>
  SetShaderMaterial. The local \<open>OBJECT_MATERIAL material\<close> is declared without an
  initialiser; \<open>material0\<close> is whatever it holds before FindMaterial is called.
\<close>

definition SetShaderMaterial :: "OBJECT_MATERIAL \<Rightarrow> string \<Rightarrow> SceneManager \<Rightarrow> error + SceneManager" where
  "SetShaderMaterial material0 materialTag s =
     (if length (m_objectMaterials s) > 0 then
        (case FindMaterial materialTag material0 s of
           (bReturn, material) \<Rightarrow>
             if bReturn = True then
               seq (setValue ''material.diffuseColor'' (Vec3Value (diffuseColor material)) s) (\<lambda>s1.
               seq (setValue ''material.specularColor'' (Vec3Value (specularColor material)) s1) (\<lambda>s2.
               setValue ''material.shininess'' (FloatValue (shininess material)) s2))
             else Inr s)
      else Inr s)"

section \<open>Construction and runs of load calls\<close>

text \<open>
  Modelled from the spec: the member declarations and their initial values are in
  SceneManager.h, which is not among the sources. The constructor in the file stores the
  shader-manager pointer; the texture array has the 16 slots the comments of
  BindGLTextures and LoadSceneTextures speak of, no texture is loaded and no material is
  defined.
\<close>

definition SceneManager_new :: "ShaderManager option \<Rightarrow> gl_context \<Rightarrow> SceneManager" where
  "SceneManager_new pShaderManager ctx =
     \<lparr>m_pShaderManager = pShaderManager,
      m_loadedTextures = 0,
      m_textureIDs = replicate 16 \<lparr>tex_tag = [], tex_ID = 0\<rparr>,
      m_objectMaterials = [],
      gl = ctx\<rparr>"

text \<open>
  A run of CreateGLTexture calls, one per (filename, tag) pair, in order; the bool each call
  returned is kept.
\<close>

fun CreateGLTexture_all ::
  "(string \<Rightarrow> image option) \<Rightarrow> (string \<times> string) list \<Rightarrow> SceneManager
     \<Rightarrow> error + (bool list \<times> SceneManager)"
where
  "CreateGLTexture_all stbi [] s = Inr ([], s)"
| "CreateGLTexture_all stbi ((filename, tag) # rest) s =
     seq (CreateGLTexture stbi filename tag s) (\<lambda>(b, s1).
     seq (CreateGLTexture_all stbi rest s1) (\<lambda>(bs, s2). Inr (b # bs, s2)))"

text \<open>The file decodes to an image with three or four channels.\<close>

definition loadable :: "(string \<Rightarrow> image option) \<Rightarrow> string \<Rightarrow> bool" where
  "loadable stbi filename =
     (case stbi filename of None \<Rightarrow> False
      | Some img \<Rightarrow> colorChannels img = 3 \<or> colorChannels img = 4)"

text \<open>The texture names the driver has handed out, in the order of the glGenTextures calls.\<close>

fun names_generated :: "lib_call list \<Rightarrow> GLuint list" where
  "names_generated [] = []"
| "names_generated (glGenTextures name # cs) = name # names_generated cs"
| "names_generated (c # cs) = names_generated cs"

text \<open>The two calls BindGLTextures makes for slot \<open>j\<close>.\<close>

definition bind_slot :: "SceneManager \<Rightarrow> nat \<Rightarrow> lib_call list" where
  "bind_slot s j =
     [glActiveTexture (GL_TEXTURE0 + int j),
      glBindTexture GL_TEXTURE_2D (tex_ID (m_textureIDs s ! j))]"

text \<open>The three assignments FindMaterial makes on a match.\<close>

definition copy_material :: "OBJECT_MATERIAL \<Rightarrow> OBJECT_MATERIAL \<Rightarrow> OBJECT_MATERIAL" where
  "copy_material src material =
     material\<lparr>diffuseColor := diffuseColor src, specularColor := specularColor src,
              shininess := shininess src\<rparr>"

text \<open>
  Inputs for the concrete runs below: a GL context in which nothing has been called yet,
  and a file system with an RGB image, an RGBA image and a one-channel image; every other
  file name cannot be read.
\<close>

definition ctx0 :: gl_context where
  "ctx0 = \<lparr>gl_calls = [], gl_next_name = 1\<rparr>"

definition example_files :: "string \<Rightarrow> image option" where
  "example_files filename =
     (if filename = ''a.jpg'' then Some \<lparr>width = 2, height = 2, colorChannels = 3\<rparr>
      else if filename = ''b.png'' then Some \<lparr>width = 2, height = 2, colorChannels = 4\<rparr>
      else if filename = ''gray.png'' then Some \<lparr>width = 2, height = 2, colorChannels = 1\<rparr>
      else None)"

section \<open>Material lookup\<close>

lemma FindMaterial_loop_found:
  "FindMaterial_loop mats tag index True material = (True, material)"
  by (simp add: FindMaterial_loop.simps)

lemma FindMaterial_loop_search:
  "FindMaterial_loop mats tag index False material =
     (case List.find (\<lambda>m. mat_tag m = tag) (drop index mats) of
        None \<Rightarrow> (False, material)
      | Some m \<Rightarrow> (True, copy_material m material))"
proof (induction "length mats - index" arbitrary: index)
  case 0
  then show ?case by (simp add: FindMaterial_loop.simps)
next
  case (Suc n)
  then have lt: "index < length mats" and n: "n = length mats - (index + 1)" by auto
  have d: "drop index mats = mats ! index # drop (index + 1) mats"
    using lt by (simp add: Cons_nth_drop_Suc)
  show ?case
  proof (cases "mat_tag (mats ! index) = tag")
    case True
    then show ?thesis
      using lt d by (simp add: FindMaterial_loop.simps [of mats tag index False]
          FindMaterial_loop_found copy_material_def)
  next
    case False
    then show ?thesis
      using lt d Suc.hyps(1) [OF n]
      by (simp add: FindMaterial_loop.simps [of mats tag index False])
  qed
qed

text \<open>
  What FindMaterial computes: false only for the empty list; otherwise true, with the
  first match copied when there is one and the caller's material untouched when there is
  none.
\<close>

lemma FindMaterial_eq:
  "FindMaterial tag material s =
     (if m_objectMaterials s = [] then (False, material)
      else case List.find (\<lambda>m. mat_tag m = tag) (m_objectMaterials s) of
             None \<Rightarrow> (True, material)
           | Some m \<Rightarrow> (True, copy_material m material))"
  by (simp add: FindMaterial_def FindMaterial_loop_search split: option.splits)

lemma materials_fold_push_back:
  "m_objectMaterials (fold objectMaterials_push_back ms s) = m_objectMaterials s @ ms"
  by (induction ms arbitrary: s) (simp_all add: objectMaterials_push_back_def)

text \<open>
  C1. The claim: FindMaterial reports failure whenever the list is empty or no entry has
  the queried tag. The code does so for the empty list only. With the seven materials of
  DefineObjectMaterials defined and the tag \<open>brass\<close>, which none of them has, it returns
  true and leaves the caller's material as it was.
\<close>

theorem FindMaterial_unknown_tag_returns_true:
  "FindMaterial ''brass'' material (DefineObjectMaterials (s\<lparr>m_objectMaterials := []\<rparr>))
     = (True, material)"
  by (simp add: FindMaterial_eq DefineObjectMaterials_def objectMaterials_push_back_def Let_def)

text \<open>
  C2. The claim: SetShaderMaterial submits nothing for a tag that is not in the list. With
  the seven materials defined, a shader manager attached and the tag \<open>brass\<close>, the code
  submits all three uniforms, with the values of the uninitialised local.
\<close>

theorem SetShaderMaterial_unknown_tag_submits:
  "SetShaderMaterial material0 ''brass''
     (DefineObjectMaterials (s\<lparr>m_objectMaterials := [], m_pShaderManager := Some sh\<rparr>))
   = Inr (DefineObjectMaterials (s\<lparr>m_objectMaterials := [], m_pShaderManager :=
        Some (sh @ [(''material.diffuseColor'', Vec3Value (diffuseColor material0)),
                    (''material.specularColor'', Vec3Value (specularColor material0)),
                    (''material.shininess'', FloatValue (shininess material0))])\<rparr>))"
  by (simp add: SetShaderMaterial_def FindMaterial_eq DefineObjectMaterials_def
      objectMaterials_push_back_def Let_def seq_def setValue_def)

text \<open>
  C9. After \<open>push_back(m)\<close>, and after any further push_backs, FindMaterial on the tag
  of \<open>m\<close> returns true, and the diffuse colour, specular colour and shininess it leaves
  in the caller's material are those of the first entry of the list that has this tag.
\<close>

theorem define_then_find:
  "\<exists>first. List.find (\<lambda>x. mat_tag x = mat_tag m)
              (m_objectMaterials (fold objectMaterials_push_back later (objectMaterials_push_back m s)))
            = Some first \<and>
     FindMaterial (mat_tag m) material
         (fold objectMaterials_push_back later (objectMaterials_push_back m s))
       = (True, material\<lparr>diffuseColor := diffuseColor first,
                         specularColor := specularColor first,
                         shininess := shininess first\<rparr>)"
proof -
  let ?mats = "m_objectMaterials (fold objectMaterials_push_back later (objectMaterials_push_back m s))"
  have mem: "m \<in> set ?mats"
    by (simp add: materials_fold_push_back objectMaterials_push_back_def)
  then have "List.find (\<lambda>x. mat_tag x = mat_tag m) ?mats \<noteq> None"
    by (auto simp: find_None_iff)
  then obtain first where f: "List.find (\<lambda>x. mat_tag x = mat_tag m) ?mats = Some first"
    by auto
  have ne: "?mats \<noteq> []" using mem by auto
  show ?thesis
    using f ne by (simp add: FindMaterial_eq copy_material_def)
qed

text \<open>
  Two materials tagged \<open>wood\<close> are defined on a new scene manager, the second with
  other values: the lookup yields the values of the first.
\<close>

theorem define_then_find_witness:
  "FindMaterial ''wood''
     \<lparr>diffuseColor = (0, 0, 0), specularColor = (0, 0, 0), shininess = 0, mat_tag = []\<rparr>
     (fold objectMaterials_push_back
        [\<lparr>diffuseColor = (7, 8, 9), specularColor = (10, 11, 12), shininess = 13, mat_tag = ''wood''\<rparr>]
        (objectMaterials_push_back
           \<lparr>diffuseColor = (1, 2, 3), specularColor = (4, 5, 6), shininess = 22, mat_tag = ''wood''\<rparr>
           (SceneManager_new None \<lparr>gl_calls = [], gl_next_name = 1\<rparr>)))
   = (True, \<lparr>diffuseColor = (1, 2, 3), specularColor = (4, 5, 6), shininess = 22, mat_tag = []\<rparr>)"
  using define_then_find
    [of "\<lparr>diffuseColor = (1, 2, 3), specularColor = (4, 5, 6), shininess = 22, mat_tag = ''wood''\<rparr>"
        "[\<lparr>diffuseColor = (7, 8, 9), specularColor = (10, 11, 12), shininess = 13, mat_tag = ''wood''\<rparr>]"
        "SceneManager_new None \<lparr>gl_calls = [], gl_next_name = 1\<rparr>"
        "\<lparr>diffuseColor = (0, 0, 0), specularColor = (0, 0, 0), shininess = 0, mat_tag = []\<rparr>"]
  by (simp add: objectMaterials_push_back_def SceneManager_new_def)

section \<open>One load call\<close>

lemma call_fields [simp]:
  "m_loadedTextures (call c s) = m_loadedTextures s"
  "m_textureIDs (call c s) = m_textureIDs s"
  "m_pShaderManager (call c s) = m_pShaderManager s"
  "m_objectMaterials (call c s) = m_objectMaterials s"
  "gl_calls (gl (call c s)) = gl_calls (gl s) @ [c]"
  "gl_next_name (gl (call c s)) = gl_next_name (gl s)"
  by (simp_all add: call_def)

lemma genTexture_fields:
  "fst (genTexture s) = gl_next_name (gl s)"
  "m_loadedTextures (snd (genTexture s)) = m_loadedTextures s"
  "m_textureIDs (snd (genTexture s)) = m_textureIDs s"
  "m_pShaderManager (snd (genTexture s)) = m_pShaderManager s"
  "m_objectMaterials (snd (genTexture s)) = m_objectMaterials s"
  "gl_calls (gl (snd (genTexture s))) = gl_calls (gl s) @ [glGenTextures (gl_next_name (gl s))]"
  "gl_next_name (gl (snd (genTexture s))) = gl_next_name (gl s) + 1"
  by (simp_all add: genTexture_def Let_def)

lemma names_generated_append:
  "names_generated (xs @ ys) = names_generated xs @ names_generated ys"
  by (induction xs rule: names_generated.induct) simp_all

lemma TEXTURE_INFO_assign:
  "(e::TEXTURE_INFO)\<lparr>tex_ID := h, tex_tag := t\<rparr> = \<lparr>tex_tag = t, tex_ID = h\<rparr>"
  by simp

lemma CreateGLTexture_register_in_bounds:
  assumes "0 \<le> m_loadedTextures s" "m_loadedTextures s < int (length (m_textureIDs s))"
  shows "\<exists>s'. CreateGLTexture_register h tag s = Inr (True, s')
           \<and> m_loadedTextures s' = m_loadedTextures s + 1
           \<and> m_textureIDs s' =
               (m_textureIDs s)[nat (m_loadedTextures s) := \<lparr>tex_tag = tag, tex_ID = h\<rparr>]
           \<and> names_generated (gl_calls (gl s')) = names_generated (gl_calls (gl s))
           \<and> m_pShaderManager s' = m_pShaderManager s
           \<and> m_objectMaterials s' = m_objectMaterials s"
  using assms
  by (simp add: CreateGLTexture_register_def Let_def names_generated_append TEXTURE_INFO_assign)

lemma CreateGLTexture_register_out_of_bounds:
  assumes "\<not> (0 \<le> m_loadedTextures s \<and> m_loadedTextures s < int (length (m_textureIDs s)))"
  shows "CreateGLTexture_register h tag s = Inl (ArrayIndexOutOfBounds (m_loadedTextures s))"
  using assms by (simp add: CreateGLTexture_register_def Let_def)

lemma CreateGLTexture_loadable_in_bounds:
  assumes "loadable stbi filename"
    and "0 \<le> m_loadedTextures s" "m_loadedTextures s < int (length (m_textureIDs s))"
  shows "\<exists>s'. CreateGLTexture stbi filename tag s = Inr (True, s')
           \<and> m_loadedTextures s' = m_loadedTextures s + 1
           \<and> m_textureIDs s' =
               (m_textureIDs s)[nat (m_loadedTextures s) :=
                  \<lparr>tex_tag = tag, tex_ID = gl_next_name (gl s)\<rparr>]
           \<and> names_generated (gl_calls (gl s')) =
               names_generated (gl_calls (gl s)) @ [gl_next_name (gl s)]
           \<and> m_pShaderManager s' = m_pShaderManager s
           \<and> m_objectMaterials s' = m_objectMaterials s"
proof -
  from assms(1) obtain img where img: "stbi filename = Some img"
    and ch: "colorChannels img = 3 \<or> colorChannels img = 4"
    by (auto simp: loadable_def split: option.splits)
  define s2 where "s2 = call (stbi_load filename) (call (stbi_set_flip_vertically_on_load True) s)"
  define s8 where "s8 =
     call (glTexParameteri GL_TEXTURE_2D GL_TEXTURE_MAG_FILTER GL_LINEAR)
      (call (glTexParameteri GL_TEXTURE_2D GL_TEXTURE_MIN_FILTER GL_LINEAR)
        (call (glTexParameteri GL_TEXTURE_2D GL_TEXTURE_WRAP_T GL_REPEAT)
          (call (glTexParameteri GL_TEXTURE_2D GL_TEXTURE_WRAP_S GL_REPEAT)
            (call (glBindTexture GL_TEXTURE_2D (gl_next_name (gl s))) (snd (genTexture s2))))))"
  define c where "c = (if colorChannels img = 3
      then glTexImage2D GL_TEXTURE_2D 0 GL_RGB8 (width img) (height img) 0 GL_RGB GL_UNSIGNED_BYTE
      else glTexImage2D GL_TEXTURE_2D 0 GL_RGBA8 (width img) (height img) 0 GL_RGBA GL_UNSIGNED_BYTE)"
  have eq: "CreateGLTexture stbi filename tag s =
              CreateGLTexture_register (gl_next_name (gl s)) tag (call c s8)"
    using img ch
    by (auto simp: CreateGLTexture_def Let_def split_beta genTexture_fields s2_def s8_def c_def)
  have f: "m_loadedTextures s8 = m_loadedTextures s"
    "m_textureIDs s8 = m_textureIDs s"
    "m_pShaderManager s8 = m_pShaderManager s"
    "m_objectMaterials s8 = m_objectMaterials s"
    by (simp_all add: s8_def s2_def genTexture_fields)
  have g: "names_generated (gl_calls (gl s8) @ [c]) =
             names_generated (gl_calls (gl s)) @ [gl_next_name (gl s)]"
    by (simp add: s8_def s2_def genTexture_fields names_generated_append c_def)
  show ?thesis
    using CreateGLTexture_register_in_bounds [of "call c s8" "gl_next_name (gl s)" tag] assms(2,3)
    by (simp add: eq f g)
qed

lemma CreateGLTexture_loadable_out_of_bounds:
  assumes "loadable stbi filename"
    and "\<not> (0 \<le> m_loadedTextures s \<and> m_loadedTextures s < int (length (m_textureIDs s)))"
  shows "CreateGLTexture stbi filename tag s = Inl (ArrayIndexOutOfBounds (m_loadedTextures s))"
proof -
  from assms(1) obtain img where img: "stbi filename = Some img"
    and ch: "colorChannels img = 3 \<or> colorChannels img = 4"
    by (auto simp: loadable_def split: option.splits)
  show ?thesis
    using img ch assms(2)
    by (auto simp: CreateGLTexture_def Let_def split_beta genTexture_fields
        CreateGLTexture_register_out_of_bounds)
qed

lemma CreateGLTexture_not_loadable:
  assumes "\<not> loadable stbi filename"
  shows "\<exists>s'. CreateGLTexture stbi filename tag s = Inr (False, s')
           \<and> m_textureIDs s' = m_textureIDs s
           \<and> m_loadedTextures s' = m_loadedTextures s
           \<and> m_pShaderManager s' = m_pShaderManager s
           \<and> m_objectMaterials s' = m_objectMaterials s"
  using assms
  by (auto simp: loadable_def CreateGLTexture_def Let_def split_beta genTexture_fields
      split: option.splits)

lemma CreateGLTexture_True:
  assumes "CreateGLTexture stbi filename tag s = Inr (True, s')"
  shows "loadable stbi filename \<and> 0 \<le> m_loadedTextures s
           \<and> m_loadedTextures s < int (length (m_textureIDs s))"
proof (cases "loadable stbi filename")
  case False
  with CreateGLTexture_not_loadable [OF False, of tag s] assms show ?thesis by auto
next
  case True
  show ?thesis
  proof (rule ccontr)
    assume "\<not> ?thesis"
    with True have "\<not> (0 \<le> m_loadedTextures s \<and> m_loadedTextures s < int (length (m_textureIDs s)))"
      by simp
    from CreateGLTexture_loadable_out_of_bounds [OF True this, of tag] assms
    show False by simp
  qed
qed

section \<open>The loops over the texture array\<close>

lemma FindTextureSlot_loop_found:
  "FindTextureSlot_loop s tag index True slot = Inr slot"
  by (simp add: FindTextureSlot_loop.simps)

lemma FindTextureSlot_loop_hit:
  assumes "0 \<le> index" "index \<le> int i" "int i < m_loadedTextures s"
    and "m_loadedTextures s \<le> int (length (m_textureIDs s))"
    and "tex_tag (m_textureIDs s ! i) = tag"
    and "\<forall>j. nat index \<le> j \<and> j < i \<longrightarrow> tex_tag (m_textureIDs s ! j) \<noteq> tag"
  shows "FindTextureSlot_loop s tag index False slot = Inr (int i)"
  using assms
proof (induction "i - nat index" arbitrary: index)
  case 0
  then have "index = int i" by simp
  with 0 show ?case
    by (simp add: FindTextureSlot_loop.simps [of s tag "int i" False] FindTextureSlot_loop_found)
next
  case (Suc n)
  then have lt: "index < int i" and n: "n = i - nat (index + 1)" by auto
  have miss: "tex_tag (m_textureIDs s ! nat index) \<noteq> tag"
    using Suc.prems(1,6) lt by (simp add: nat_less_iff)
  have rest: "\<forall>j. nat (index + 1) \<le> j \<and> j < i \<longrightarrow> tex_tag (m_textureIDs s ! j) \<noteq> tag"
    using Suc.prems(1,6) by (simp add: nat_add_distrib)
  have "FindTextureSlot_loop s tag (index + 1) False slot = Inr (int i)"
    using Suc.hyps(1) [OF n] Suc.prems lt rest by simp
  then show ?case
    using Suc.prems lt miss
    by (simp add: FindTextureSlot_loop.simps [of s tag index False])
qed

lemma FindTextureSlot_loop_miss:
  assumes "0 \<le> index"
    and "m_loadedTextures s \<le> int (length (m_textureIDs s))"
    and "\<forall>j. nat index \<le> j \<and> j < nat (m_loadedTextures s) \<longrightarrow> tex_tag (m_textureIDs s ! j) \<noteq> tag"
  shows "FindTextureSlot_loop s tag index False slot = Inr slot"
  using assms
proof (induction "nat (m_loadedTextures s - index)" arbitrary: index)
  case 0
  then show ?case by (simp add: FindTextureSlot_loop.simps [of s tag index False])
next
  case (Suc n)
  then have lt: "index < m_loadedTextures s" and n: "n = nat (m_loadedTextures s - (index + 1))"
    by auto
  have miss: "tex_tag (m_textureIDs s ! nat index) \<noteq> tag"
    using Suc.prems(1,3) lt by (simp add: nat_less_iff)
  have rest: "\<forall>j. nat (index + 1) \<le> j \<and> j < nat (m_loadedTextures s)
                \<longrightarrow> tex_tag (m_textureIDs s ! j) \<noteq> tag"
    using Suc.prems(1,3) by (simp add: nat_add_distrib)
  have "FindTextureSlot_loop s tag (index + 1) False slot = Inr slot"
    using Suc.hyps(1) [OF n] Suc.prems lt rest by simp
  then show ?case
    using Suc.prems lt miss
    by (simp add: FindTextureSlot_loop.simps [of s tag index False])
qed

lemma bind_slot_gl [simp]: "bind_slot (gl_update f s) = bind_slot s"
  by (rule ext) (simp add: bind_slot_def)

lemma bind_slot_call [simp]: "bind_slot (call c s) = bind_slot s"
  by (simp add: call_def)

lemma BindGLTextures_loop_calls:
  assumes "0 \<le> i" "m_loadedTextures s \<le> int (length (m_textureIDs s))"
  shows "BindGLTextures_loop i s =
           Inr (s\<lparr>gl := (gl s)\<lparr>gl_calls := gl_calls (gl s) @
                  concat (map (bind_slot s) [nat i..<nat (m_loadedTextures s)])\<rparr>\<rparr>)"
  using assms
proof (induction "nat (m_loadedTextures s - i)" arbitrary: i s)
  case 0
  then show ?case by (simp add: BindGLTextures_loop.simps [of i s])
next
  case (Suc n)
  then have lt: "i < m_loadedTextures s" by auto
  define s2 where "s2 = call (glBindTexture GL_TEXTURE_2D (tex_ID (m_textureIDs s ! nat i)))
                          (call (glActiveTexture (GL_TEXTURE0 + i)) s)"
  have n: "n = nat (m_loadedTextures s2 - (i + 1))"
    using Suc.hyps(2) by (simp add: s2_def)
  have ih: "BindGLTextures_loop (i + 1) s2 =
           Inr (s2\<lparr>gl := (gl s2)\<lparr>gl_calls := gl_calls (gl s2) @
                  concat (map (bind_slot s2) [nat (i + 1)..<nat (m_loadedTextures s2)])\<rparr>\<rparr>)"
    using Suc.hyps(1) [OF n] Suc.prems by (simp add: s2_def)
  have upt: "[nat i..<nat (m_loadedTextures s)] = nat i # [nat (i + 1)..<nat (m_loadedTextures s)]"
    using lt Suc.prems(1) by (simp add: upt_conv_Cons nat_add_distrib nat_less_iff)
  have step: "BindGLTextures_loop i s = BindGLTextures_loop (i + 1) s2"
    using lt Suc.prems by (simp add: BindGLTextures_loop.simps [of i s] s2_def)
  show ?case
    using Suc.prems(1)
    by (simp add: step ih upt) (simp add: s2_def call_def bind_slot_def [of s "nat i"])
qed

lemma DestroyGLTextures_loop_calls:
  assumes "0 \<le> i" "m_loadedTextures s \<le> int (length (m_textureIDs s))"
  shows "\<exists>s' names. DestroyGLTextures_loop i s = Inr s'
           \<and> gl_calls (gl s') = gl_calls (gl s) @ map glGenTextures names
           \<and> length names = nat (m_loadedTextures s - i)"
  using assms
proof (induction "nat (m_loadedTextures s - i)" arbitrary: i s)
  case 0
  then show ?case by (simp add: DestroyGLTextures_loop.simps [of i s])
next
  case (Suc n)
  then have lt: "i < m_loadedTextures s" by auto
  define s2 where "s2 = (snd (genTexture s))\<lparr>m_textureIDs :=
       (m_textureIDs s)[nat i := (m_textureIDs s ! nat i)\<lparr>tex_ID := gl_next_name (gl s)\<rparr>]\<rparr>"
  have f: "m_loadedTextures s2 = m_loadedTextures s" "length (m_textureIDs s2) = length (m_textureIDs s)"
    "gl_calls (gl s2) = gl_calls (gl s) @ [glGenTextures (gl_next_name (gl s))]"
    by (simp_all add: s2_def genTexture_fields)
  have n: "n = nat (m_loadedTextures s2 - (i + 1))"
    using Suc.hyps(2) by (simp add: f)
  have step: "DestroyGLTextures_loop i s = DestroyGLTextures_loop (i + 1) s2"
    using lt Suc.prems
    by (simp add: DestroyGLTextures_loop.simps [of i s] s2_def split_beta genTexture_fields)
  from Suc.hyps(1) [OF n] Suc.prems f
  obtain s' names where r: "DestroyGLTextures_loop (i + 1) s2 = Inr s'"
    "gl_calls (gl s') = gl_calls (gl s2) @ map glGenTextures names"
    "length names = nat (m_loadedTextures s2 - (i + 1))"
    by auto
  have c: "gl_calls (gl s') = gl_calls (gl s) @ map glGenTextures (gl_next_name (gl s) # names)"
    using r(2) f by simp
  have l: "length (gl_next_name (gl s) # names) = nat (m_loadedTextures s - i)"
    using r(3) f lt by simp
  show ?case
    apply (rule exI [of _ s'])
    apply (rule exI [of _ "gl_next_name (gl s) # names"])
    using step r(1) c l apply simp
    done
qed

section \<open>Runs of load calls\<close>

lemma CreateGLTexture_all_success:
  assumes "CreateGLTexture_all stbi reqs s0 = Inr (rs, s)" "\<forall>b\<in>set rs. b"
  shows "length (m_textureIDs s) = length (m_textureIDs s0)
       \<and> m_loadedTextures s = m_loadedTextures s0 + int (length reqs)
       \<and> length rs = length reqs
       \<and> (reqs \<noteq> [] \<longrightarrow> 0 \<le> m_loadedTextures s0
              \<and> m_loadedTextures s \<le> int (length (m_textureIDs s)))
       \<and> (\<forall>j < nat (m_loadedTextures s0). m_textureIDs s ! j = m_textureIDs s0 ! j)
       \<and> (\<exists>hs. length hs = length reqs
              \<and> names_generated (gl_calls (gl s)) = names_generated (gl_calls (gl s0)) @ hs
              \<and> (\<forall>j < length reqs. m_textureIDs s ! (nat (m_loadedTextures s0) + j)
                     = \<lparr>tex_tag = snd (reqs ! j), tex_ID = hs ! j\<rparr>))"
  using assms
proof (induction reqs arbitrary: s0 rs)
  case Nil
  then show ?case by simp
next
  case (Cons r rest)
  obtain filename tag where r: "r = (filename, tag)" by (cases r)
  from Cons.prems(1) obtain b s1 bs where
    one: "CreateGLTexture stbi filename tag s0 = Inr (b, s1)" and
    more: "CreateGLTexture_all stbi rest s1 = Inr (bs, s)" and
    rs: "rs = b # bs"
    by (auto simp: r seq_def split: sum.splits prod.splits)
  from Cons.prems(2) rs have b: "b" and bs: "\<forall>x\<in>set bs. x" by auto
  from one b have one': "CreateGLTexture stbi filename tag s0 = Inr (True, s1)" by simp
  define k where "k = m_loadedTextures s0"
  from CreateGLTexture_True [OF one'] have
    ld: "loadable stbi filename" and k0: "0 \<le> k" and kl: "k < int (length (m_textureIDs s0))"
    by (simp_all add: k_def)
  from CreateGLTexture_loadable_in_bounds [OF ld, of s0 tag] k0 kl one' have
    s1: "m_loadedTextures s1 = k + 1"
      "m_textureIDs s1 = (m_textureIDs s0)[nat k := \<lparr>tex_tag = tag, tex_ID = gl_next_name (gl s0)\<rparr>]"
      "names_generated (gl_calls (gl s1)) = names_generated (gl_calls (gl s0)) @ [gl_next_name (gl s0)]"
    by (auto simp: k_def)
  from Cons.IH [OF more bs] obtain hs where
    ih: "length (m_textureIDs s) = length (m_textureIDs s1)"
      "m_loadedTextures s = m_loadedTextures s1 + int (length rest)"
      "length bs = length rest"
      "rest \<noteq> [] \<longrightarrow> m_loadedTextures s \<le> int (length (m_textureIDs s))"
      "\<forall>j < nat (m_loadedTextures s1). m_textureIDs s ! j = m_textureIDs s1 ! j"
      "length hs = length rest"
      "names_generated (gl_calls (gl s)) = names_generated (gl_calls (gl s1)) @ hs"
      "\<forall>j < length rest. m_textureIDs s ! (nat (m_loadedTextures s1) + j)
                     = \<lparr>tex_tag = snd (rest ! j), tex_ID = hs ! j\<rparr>"
    by blast
  have nk: "nat (k + 1) = Suc (nat k)" using k0 by simp
  have len: "length (m_textureIDs s) = length (m_textureIDs s0)"
    using ih(1) s1(2) by simp
  have cnt: "m_loadedTextures s = k + int (length (r # rest))"
    using ih(2) s1(1) by simp
  have bound: "m_loadedTextures s \<le> int (length (m_textureIDs s))"
  proof (cases "rest = []")
    case True
    then show ?thesis using cnt kl len by simp
  next
    case False
    then show ?thesis using ih(4) by simp
  qed
  have below: "\<forall>j < nat k. m_textureIDs s ! j = m_textureIDs s0 ! j"
    using ih(5) s1(1,2) nk by simp
  have at_k: "m_textureIDs s ! nat k = \<lparr>tex_tag = tag, tex_ID = gl_next_name (gl s0)\<rparr>"
    using ih(5) s1(1,2) nk k0 kl by simp
  have entries: "\<forall>j < length (r # rest). m_textureIDs s ! (nat k + j)
                     = \<lparr>tex_tag = snd ((r # rest) ! j), tex_ID = (gl_next_name (gl s0) # hs) ! j\<rparr>"
  proof (intro allI impI)
    fix j assume j: "j < length (r # rest)"
    show "m_textureIDs s ! (nat k + j)
            = \<lparr>tex_tag = snd ((r # rest) ! j), tex_ID = (gl_next_name (gl s0) # hs) ! j\<rparr>"
    proof (cases j)
      case 0
      then show ?thesis using at_k r by simp
    next
      case (Suc j')
      then have "j' < length rest" using j by simp
      with ih(8) s1(1) nk Suc show ?thesis by simp
    qed
  qed
  have names: "names_generated (gl_calls (gl s))
                 = names_generated (gl_calls (gl s0)) @ (gl_next_name (gl s0) # hs)"
    using ih(7) s1(3) by simp
  have hl: "length (gl_next_name (gl s0) # hs) = length (r # rest)"
    using ih(6) by simp
  have ex: "\<exists>hs. length hs = length (r # rest)
              \<and> names_generated (gl_calls (gl s)) = names_generated (gl_calls (gl s0)) @ hs
              \<and> (\<forall>j < length (r # rest). m_textureIDs s ! (nat k + j)
                     = \<lparr>tex_tag = snd ((r # rest) ! j), tex_ID = hs ! j\<rparr>)"
    using hl names entries by blast
  show ?case
    using len cnt bound below ex k0 rs ih(3) unfolding k_def by simp
qed

text \<open>
  C4. A run of load calls starts on a registry with no texture loaded, every call returns
  true and the tags are pairwise distinct. Let \<open>hs\<close> be the texture names glGenTextures
  returned during the run, in call order. Then slot \<open>i\<close> of the array holds the tag and
  the name of the \<open>i\<close>-th call, FindTextureSlot on the tag of the \<open>i\<close>-th call returns
  \<open>i\<close>, and BindGLTextures activates the units \<open>GL_TEXTURE0 + 0\<close>,
  \<open>GL_TEXTURE0 + 1\<close>, ... in this order and binds \<open>hs ! i\<close> on unit \<open>i\<close>, and makes
  no other call.
\<close>

theorem loads_then_slots_and_binding:
  assumes "m_loadedTextures s0 = 0"
    and "CreateGLTexture_all stbi reqs s0 = Inr (rs, s)"
    and "\<forall>b\<in>set rs. b"
    and "distinct (map snd reqs)"
  shows "\<exists>hs. length hs = length reqs
     \<and> names_generated (gl_calls (gl s)) = names_generated (gl_calls (gl s0)) @ hs
     \<and> (\<forall>i<length reqs.
           m_textureIDs s ! i = \<lparr>tex_tag = snd (reqs ! i), tex_ID = hs ! i\<rparr>
         \<and> FindTextureSlot (snd (reqs ! i)) s = Inr (int i))
     \<and> BindGLTextures s =
         Inr (s\<lparr>gl := (gl s)\<lparr>gl_calls := gl_calls (gl s) @
                concat (map (\<lambda>i. [glActiveTexture (GL_TEXTURE0 + int i),
                                    glBindTexture GL_TEXTURE_2D (hs ! i)])
                          [0..<length reqs])\<rparr>\<rparr>)"
proof -
  from CreateGLTexture_all_success [OF assms(2,3)] assms(1) obtain hs where
    len: "length (m_textureIDs s) = length (m_textureIDs s0)" and
    cnt: "m_loadedTextures s = int (length reqs)" and
    bound: "reqs \<noteq> [] \<longrightarrow> m_loadedTextures s \<le> int (length (m_textureIDs s))" and
    hl: "length hs = length reqs" and
    names: "names_generated (gl_calls (gl s)) = names_generated (gl_calls (gl s0)) @ hs" and
    entries: "\<forall>j < length reqs. m_textureIDs s ! j = \<lparr>tex_tag = snd (reqs ! j), tex_ID = hs ! j\<rparr>"
    by auto
  have fits: "m_loadedTextures s \<le> int (length (m_textureIDs s))"
    using bound cnt by (cases "reqs = []") simp_all
  have slots: "FindTextureSlot (snd (reqs ! i)) s = Inr (int i)" if i: "i < length reqs" for i
  proof -
    have tag_i: "tex_tag (m_textureIDs s ! i) = snd (reqs ! i)"
      using entries i by simp
    have others: "\<forall>j. nat 0 \<le> j \<and> j < i \<longrightarrow> tex_tag (m_textureIDs s ! j) \<noteq> snd (reqs ! i)"
    proof (intro allI impI)
      fix j assume j: "nat 0 \<le> j \<and> j < i"
      then have "tex_tag (m_textureIDs s ! j) = snd (reqs ! j)"
        using entries i by simp
      moreover have "snd (reqs ! j) \<noteq> snd (reqs ! i)"
        using assms(4) i j nth_eq_iff_index_eq [of "map snd reqs" j i] by simp
      ultimately show "tex_tag (m_textureIDs s ! j) \<noteq> snd (reqs ! i)"
        by simp
    qed
    show ?thesis
      unfolding FindTextureSlot_def
      by (rule FindTextureSlot_loop_hit [OF _ _ _ fits tag_i others]) (use i cnt in simp_all)
  qed
  have m: "map (bind_slot s) [0..<length reqs]
          = map (\<lambda>i. [glActiveTexture (GL_TEXTURE0 + int i), glBindTexture GL_TEXTURE_2D (hs ! i)])
              [0..<length reqs]"
    using entries by (simp add: bind_slot_def)
  have bind0: "BindGLTextures s =
         Inr (s\<lparr>gl := (gl s)\<lparr>gl_calls := gl_calls (gl s) @
                concat (map (bind_slot s) [0..<length reqs])\<rparr>\<rparr>)"
    using BindGLTextures_loop_calls [of 0 s] fits cnt by (simp add: BindGLTextures_def)
  have bind: "BindGLTextures s =
         Inr (s\<lparr>gl := (gl s)\<lparr>gl_calls := gl_calls (gl s) @
                concat (map (\<lambda>i. [glActiveTexture (GL_TEXTURE0 + int i),
                                    glBindTexture GL_TEXTURE_2D (hs ! i)])
                          [0..<length reqs])\<rparr>\<rparr>)"
    unfolding m [symmetric] by (rule bind0)
  show ?thesis
    apply (rule exI [of _ hs])
    using hl names entries slots bind apply simp
    done
qed


text \<open>
  The scenario of the specification: an RGB image is loaded as \<open>wood\<close>, then an RGBA
  image as \<open>glass\<close>.
\<close>

theorem loads_then_slots_and_binding_witness:
  "\<exists>s. CreateGLTexture_all example_files [(''a.jpg'', ''wood''), (''b.png'', ''glass'')]
          (SceneManager_new None ctx0) = Inr ([True, True], s)
     \<and> names_generated (gl_calls (gl s)) = [1, 2]
     \<and> FindTextureSlot ''wood'' s = Inr 0
     \<and> FindTextureSlot ''glass'' s = Inr 1
     \<and> BindGLTextures s =
         Inr (s\<lparr>gl := (gl s)\<lparr>gl_calls := gl_calls (gl s) @
                [glActiveTexture (GL_TEXTURE0 + 0), glBindTexture GL_TEXTURE_2D 1,
                 glActiveTexture (GL_TEXTURE0 + 1), glBindTexture GL_TEXTURE_2D 2]\<rparr>\<rparr>)"
proof -
  obtain s where run:
    "CreateGLTexture_all example_files [(''a.jpg'', ''wood''), (''b.png'', ''glass'')]
          (SceneManager_new None ctx0) = Inr ([True, True], s)"
    and names: "names_generated (gl_calls (gl s)) = [1, 2]"
    by (simp add: seq_def CreateGLTexture_def CreateGLTexture_register_def call_def
        genTexture_def example_files_def SceneManager_new_def ctx0_def Let_def)
  have zero: "m_loadedTextures (SceneManager_new None ctx0) = 0"
    by (simp add: SceneManager_new_def)
  have none: "names_generated (gl_calls (gl (SceneManager_new None ctx0))) = []"
    by (simp add: SceneManager_new_def ctx0_def)
  from loads_then_slots_and_binding [OF zero run] names none
  obtain hs where hs: "hs = [1, 2]"
    "\<forall>i<length [(''a.jpg'', ''wood''), (''b.png'', ''glass'')].
        FindTextureSlot (snd ([(''a.jpg'', ''wood''), (''b.png'', ''glass'')] ! i)) s = Inr (int i)"
    "BindGLTextures s =
         Inr (s\<lparr>gl := (gl s)\<lparr>gl_calls := gl_calls (gl s) @
                concat (map (\<lambda>i. [glActiveTexture (GL_TEXTURE0 + int i),
                                    glBindTexture GL_TEXTURE_2D (hs ! i)])
                          [0..<length [(''a.jpg'', ''wood''), (''b.png'', ''glass'')]])\<rparr>\<rparr>)"
    by auto
  have "FindTextureSlot ''wood'' s = Inr 0"
    using hs(2) [rule_format, of 0] by simp
  moreover have "FindTextureSlot ''glass'' s = Inr 1"
    using hs(2) [rule_format, of 1] by simp
  moreover have "BindGLTextures s =
         Inr (s\<lparr>gl := (gl s)\<lparr>gl_calls := gl_calls (gl s) @
                [glActiveTexture (GL_TEXTURE0 + 0), glBindTexture GL_TEXTURE_2D 1,
                 glActiveTexture (GL_TEXTURE0 + 1), glBindTexture GL_TEXTURE_2D 2]\<rparr>\<rparr>)"
    using hs(3) by (simp add: hs(1) upt_rec)
  ultimately show ?thesis using run names by blast
qed

section \<open>Which tags occupy the slots\<close>

text \<open>
  The tags in the occupied slots are the tags of the calls that returned true, in call
  order, after the tags that were there before; and the counter stays within the array.
  So a tag that no successful load has registered is a tag no occupied slot holds.
\<close>

lemma CreateGLTexture_occupied_tags:
  assumes "CreateGLTexture stbi filename tag s = Inr (b, s')"
    and "0 \<le> m_loadedTextures s" "m_loadedTextures s \<le> int (length (m_textureIDs s))"
  shows "0 \<le> m_loadedTextures s' \<and> m_loadedTextures s' \<le> int (length (m_textureIDs s'))
       \<and> map tex_tag (take (nat (m_loadedTextures s')) (m_textureIDs s'))
           = map tex_tag (take (nat (m_loadedTextures s)) (m_textureIDs s))
               @ (if b then [tag] else [])"
proof (cases b)
  case False
  have nl: "\<not> loadable stbi filename"
  proof
    assume ld: "loadable stbi filename"
    show False
    proof (cases "m_loadedTextures s < int (length (m_textureIDs s))")
      case True
      from CreateGLTexture_loadable_in_bounds [OF ld assms(2) True, of tag] assms(1) False
      show False by auto
    next
      case False
      with CreateGLTexture_loadable_out_of_bounds [OF ld, of s tag] assms(1)
      show False by simp
    qed
  qed
  from CreateGLTexture_not_loadable [OF nl, of tag s] assms False
  show ?thesis by auto
next
  case True
  with assms(1) have ok: "CreateGLTexture stbi filename tag s = Inr (True, s')" by simp
  from CreateGLTexture_True [OF ok] have
    ld: "loadable stbi filename" and lt: "m_loadedTextures s < int (length (m_textureIDs s))"
    by simp_all
  from CreateGLTexture_loadable_in_bounds [OF ld assms(2) lt, of tag] ok have
    s': "m_loadedTextures s' = m_loadedTextures s + 1"
      "m_textureIDs s' = (m_textureIDs s)[nat (m_loadedTextures s) :=
                  \<lparr>tex_tag = tag, tex_ID = gl_next_name (gl s)\<rparr>]"
    by auto
  have n: "nat (m_loadedTextures s + 1) = Suc (nat (m_loadedTextures s))"
    using assms(2) by simp
  have k: "nat (m_loadedTextures s) < length (m_textureIDs s)"
    using assms(2) lt by simp
  show ?thesis
    using True assms(2) lt k by (simp add: s' n take_Suc_conv_app_nth)
qed

lemma CreateGLTexture_all_occupied_tags:
  assumes "CreateGLTexture_all stbi reqs s0 = Inr (rs, s)"
    and "0 \<le> m_loadedTextures s0" "m_loadedTextures s0 \<le> int (length (m_textureIDs s0))"
  shows "0 \<le> m_loadedTextures s \<and> m_loadedTextures s \<le> int (length (m_textureIDs s))
       \<and> map tex_tag (take (nat (m_loadedTextures s)) (m_textureIDs s))
           = map tex_tag (take (nat (m_loadedTextures s0)) (m_textureIDs s0))
               @ map (snd \<circ> fst) (filter snd (zip reqs rs))"
  using assms
proof (induction reqs arbitrary: s0 rs)
  case Nil
  then show ?case by simp
next
  case (Cons r rest)
  obtain filename tag where r: "r = (filename, tag)" by (cases r)
  from Cons.prems(1) obtain b s1 bs where
    one: "CreateGLTexture stbi filename tag s0 = Inr (b, s1)" and
    more: "CreateGLTexture_all stbi rest s1 = Inr (bs, s)" and
    rs: "rs = b # bs"
    by (auto simp: r seq_def split: sum.splits prod.splits)
  note step = CreateGLTexture_occupied_tags [OF one Cons.prems(2,3)]
  from Cons.IH [OF more] step have
    "0 \<le> m_loadedTextures s \<and> m_loadedTextures s \<le> int (length (m_textureIDs s))
       \<and> map tex_tag (take (nat (m_loadedTextures s)) (m_textureIDs s))
           = map tex_tag (take (nat (m_loadedTextures s1)) (m_textureIDs s1))
               @ map (snd \<circ> fst) (filter snd (zip rest bs))"
    by simp
  then show ?case
    using step by (simp add: r rs)
qed

lemma unregistered_iff:
  assumes "m_loadedTextures s \<le> int (length (m_textureIDs s))"
  shows "(\<forall>j < nat (m_loadedTextures s). tex_tag (m_textureIDs s ! j) \<noteq> tag)
       \<longleftrightarrow> tag \<notin> set (map tex_tag (take (nat (m_loadedTextures s)) (m_textureIDs s)))"
proof -
  define n where "n = nat (m_loadedTextures s)"
  have l: "n \<le> length (m_textureIDs s)"
    using assms by (simp add: n_def)
  have "map tex_tag (take n (m_textureIDs s)) = map (\<lambda>j. tex_tag (m_textureIDs s ! j)) [0..<n]"
    using l by (intro nth_equalityI) simp_all
  then have "set (map tex_tag (take n (m_textureIDs s)))
               = {tex_tag (m_textureIDs s ! j) | j. j < n}"
    by auto
  then show ?thesis
    unfolding n_def [symmetric] by auto
qed

section \<open>Unregistered tags, failed loads, and the capacity of the array\<close>

lemma FindTextureSlot_unregistered:
  assumes "m_loadedTextures s \<le> int (length (m_textureIDs s))"
    and "\<forall>j < nat (m_loadedTextures s). tex_tag (m_textureIDs s ! j) \<noteq> tag"
  shows "FindTextureSlot tag s = Inr (- 1)"
  unfolding FindTextureSlot_def
  by (rule FindTextureSlot_loop_miss) (use assms in simp_all)

text \<open>
  C6. No occupied slot of the texture array holds the tag (and the counter does not exceed
  the array). Then FindTextureSlot returns \<open>-1\<close>, and SetShaderTexture returns
  normally: with a shader manager attached it submits \<open>bUseTexture = 1\<close> and then
  \<open>objectTexture = -1\<close>, and nothing else; with a null shader manager it leaves the
  state as it is.
\<close>

theorem SetShaderTexture_unregistered_tag:
  assumes "m_loadedTextures s \<le> int (length (m_textureIDs s))"
    and "\<forall>j < nat (m_loadedTextures s). tex_tag (m_textureIDs s ! j) \<noteq> tag"
  shows "FindTextureSlot tag s = Inr (- 1)
       \<and> SetShaderTexture tag s =
           Inr (case m_pShaderManager s of
                  None \<Rightarrow> s
                | Some sh \<Rightarrow>
                    s\<lparr>m_pShaderManager :=
                        Some (sh @ [(g_UseTextureName, IntValue 1),
                                    (g_TextureValueName, Sampler2DValue (- 1))])\<rparr>)"
proof (cases "m_pShaderManager s")
  case None
  then show ?thesis
    using FindTextureSlot_unregistered [OF assms] by (simp add: SetShaderTexture_def)
next
  case (Some sh)
  define s1 where "s1 = s\<lparr>m_pShaderManager := Some (sh @ [(g_UseTextureName, IntValue 1)])\<rparr>"
  have "FindTextureSlot tag s1 = Inr (- 1)"
    by (rule FindTextureSlot_unregistered) (use assms in \<open>simp_all add: s1_def\<close>)
  then show ?thesis
    using Some FindTextureSlot_unregistered [OF assms]
    by (simp add: SetShaderTexture_def seq_def setValue_def s1_def)
qed

text \<open>
  One texture, \<open>wood\<close>, is registered; the tag \<open>metal\<close> is looked up and
  submitted.
\<close>

theorem SetShaderTexture_unregistered_tag_witness:
  "FindTextureSlot ''metal''
     ((SceneManager_new (Some []) ctx0)
        \<lparr>m_loadedTextures := 1,
         m_textureIDs := \<lparr>tex_tag = ''wood'', tex_ID = 1\<rparr> # replicate 15 \<lparr>tex_tag = [], tex_ID = 0\<rparr>\<rparr>)
     = Inr (- 1)
   \<and> SetShaderTexture ''metal''
     ((SceneManager_new (Some []) ctx0)
        \<lparr>m_loadedTextures := 1,
         m_textureIDs := \<lparr>tex_tag = ''wood'', tex_ID = 1\<rparr> # replicate 15 \<lparr>tex_tag = [], tex_ID = 0\<rparr>\<rparr>)
     = Inr ((SceneManager_new (Some [(''bUseTexture'', IntValue 1),
                                      (''objectTexture'', Sampler2DValue (- 1))]) ctx0)
        \<lparr>m_loadedTextures := 1,
         m_textureIDs := \<lparr>tex_tag = ''wood'', tex_ID = 1\<rparr> # replicate 15 \<lparr>tex_tag = [], tex_ID = 0\<rparr>\<rparr>)"
  using SetShaderTexture_unregistered_tag
    [of "(SceneManager_new (Some []) ctx0)
        \<lparr>m_loadedTextures := 1,
         m_textureIDs := \<lparr>tex_tag = ''wood'', tex_ID = 1\<rparr> # replicate 15 \<lparr>tex_tag = [], tex_ID = 0\<rparr>\<rparr>"
        "''metal''"]
  by (simp add: SceneManager_new_def g_UseTextureName_def g_TextureValueName_def)

text \<open>
  C7. When stbi_load returns null, or returns an image whose channel count is neither 3
  nor 4, CreateGLTexture returns false, and the texture array and the counter of loaded
  textures are what they were before the call.
\<close>

theorem failed_load_leaves_registry:
  assumes "stbi filename = None
         \<or> (\<exists>img. stbi filename = Some img \<and> colorChannels img \<noteq> 3 \<and> colorChannels img \<noteq> 4)"
  shows "\<exists>s'. CreateGLTexture stbi filename tag s = Inr (False, s')
           \<and> m_textureIDs s' = m_textureIDs s
           \<and> m_loadedTextures s' = m_loadedTextures s"
proof -
  from assms have "\<not> loadable stbi filename"
    by (auto simp: loadable_def)
  from CreateGLTexture_not_loadable [OF this, of tag s] show ?thesis by blast
qed

text \<open>
  A file that cannot be read, and a one-channel image.
\<close>

theorem failed_load_leaves_registry_witness:
  "(\<exists>s'. CreateGLTexture example_files ''missing.jpg'' ''wood'' (SceneManager_new None ctx0)
            = Inr (False, s')
        \<and> m_textureIDs s' = m_textureIDs (SceneManager_new None ctx0)
        \<and> m_loadedTextures s' = 0)
 \<and> (\<exists>s'. CreateGLTexture example_files ''gray.png'' ''wood'' (SceneManager_new None ctx0)
            = Inr (False, s')
        \<and> m_textureIDs s' = m_textureIDs (SceneManager_new None ctx0)
        \<and> m_loadedTextures s' = 0)"
  using failed_load_leaves_registry [of example_files "''missing.jpg''" "''wood''" "SceneManager_new None ctx0"]
    failed_load_leaves_registry [of example_files "''gray.png''" "''wood''" "SceneManager_new None ctx0"]
  by (simp add: example_files_def SceneManager_new_def)

lemma CreateGLTexture_all_overflow:
  assumes "\<forall>r\<in>set reqs. loadable stbi (fst r)"
    and "0 \<le> m_loadedTextures s0"
    and "m_loadedTextures s0 \<le> int (length (m_textureIDs s0))"
    and "int (length (m_textureIDs s0)) < m_loadedTextures s0 + int (length reqs)"
  shows "CreateGLTexture_all stbi reqs s0
           = Inl (ArrayIndexOutOfBounds (int (length (m_textureIDs s0))))"
  using assms
proof (induction reqs arbitrary: s0)
  case Nil
  then show ?case by simp
next
  case (Cons r rest)
  obtain filename tag where r: "r = (filename, tag)" by (cases r)
  from Cons.prems(1) r have ld: "loadable stbi filename" by simp
  show ?case
  proof (cases "m_loadedTextures s0 < int (length (m_textureIDs s0))")
    case False
    with Cons.prems(3) have full: "m_loadedTextures s0 = int (length (m_textureIDs s0))" by simp
    then have "CreateGLTexture stbi filename tag s0
                 = Inl (ArrayIndexOutOfBounds (int (length (m_textureIDs s0))))"
      using CreateGLTexture_loadable_out_of_bounds [OF ld, of s0 tag] by simp
    then show ?thesis by (simp add: r seq_def)
  next
    case True
    from CreateGLTexture_loadable_in_bounds [OF ld Cons.prems(2) True, of tag]
    obtain s1 where s1: "CreateGLTexture stbi filename tag s0 = Inr (True, s1)"
      "m_loadedTextures s1 = m_loadedTextures s0 + 1"
      "length (m_textureIDs s1) = length (m_textureIDs s0)"
      by auto
    have "CreateGLTexture_all stbi rest s1
            = Inl (ArrayIndexOutOfBounds (int (length (m_textureIDs s1))))"
      by (rule Cons.IH) (use Cons.prems True s1 in simp_all)
    then show ?thesis
      using s1 by (simp add: r seq_def)
  qed
qed

text \<open>
  C10. A call of CreateGLTexture that returns true has written the tag and the new name
  at index \<open>m_loadedTextures\<close> and has incremented the counter. Nothing compares the
  counter with the size of the array: a decodable image with the counter at or beyond the
  array size makes the code write outside the array, at index \<open>m_loadedTextures\<close>.
  With 16 slots and the counter at 0, every run of more than 16 decodable loads reaches
  the write at index 16.
\<close>

theorem CreateGLTexture_no_capacity_check:
  "(CreateGLTexture stbi filename tag s = Inr (True, s') \<longrightarrow>
      m_textureIDs s' =
        (m_textureIDs s)[nat (m_loadedTextures s) :=
           \<lparr>tex_tag = tag, tex_ID = gl_next_name (gl s)\<rparr>]
    \<and> m_loadedTextures s' = m_loadedTextures s + 1)
 \<and> (loadable stbi filename \<and> int (length (m_textureIDs s)) \<le> m_loadedTextures s \<longrightarrow>
      CreateGLTexture stbi filename tag s = Inl (ArrayIndexOutOfBounds (m_loadedTextures s)))
 \<and> ((\<forall>r\<in>set reqs. loadable stbi (fst r)) \<and> m_loadedTextures s0 = 0
      \<and> length (m_textureIDs s0) = 16 \<and> 16 < length reqs \<longrightarrow>
      CreateGLTexture_all stbi reqs s0 = Inl (ArrayIndexOutOfBounds 16))"
proof (intro conjI impI)
  assume ok: "CreateGLTexture stbi filename tag s = Inr (True, s')"
  from CreateGLTexture_True [OF ok] have
    ld: "loadable stbi filename" and b: "0 \<le> m_loadedTextures s"
      "m_loadedTextures s < int (length (m_textureIDs s))"
    by simp_all
  from CreateGLTexture_loadable_in_bounds [OF ld b, of tag] ok
  show "m_textureIDs s' =
        (m_textureIDs s)[nat (m_loadedTextures s) :=
           \<lparr>tex_tag = tag, tex_ID = gl_next_name (gl s)\<rparr>]"
    and "m_loadedTextures s' = m_loadedTextures s + 1"
    by auto
next
  assume "loadable stbi filename \<and> int (length (m_textureIDs s)) \<le> m_loadedTextures s"
  then show "CreateGLTexture stbi filename tag s = Inl (ArrayIndexOutOfBounds (m_loadedTextures s))"
    using CreateGLTexture_loadable_out_of_bounds [of stbi filename s tag] by simp
next
  assume a: "(\<forall>r\<in>set reqs. loadable stbi (fst r)) \<and> m_loadedTextures s0 = 0
      \<and> length (m_textureIDs s0) = 16 \<and> 16 < length reqs"
  then show "CreateGLTexture_all stbi reqs s0 = Inl (ArrayIndexOutOfBounds 16)"
    using CreateGLTexture_all_overflow [of reqs stbi s0] by simp
qed

text \<open>
  On a new scene manager the first load of an RGB image lands in slot 0; the same load
  with the counter at 16 writes outside the array; so does the seventeenth of seventeen
  loads.
\<close>

theorem CreateGLTexture_no_capacity_check_witness:
  "(\<exists>s'. CreateGLTexture example_files ''a.jpg'' ''wood'' (SceneManager_new None ctx0)
            = Inr (True, s')
        \<and> m_textureIDs s' =
            (m_textureIDs (SceneManager_new None ctx0))[0 := \<lparr>tex_tag = ''wood'', tex_ID = 1\<rparr>]
        \<and> m_loadedTextures s' = 1)
 \<and> CreateGLTexture example_files ''a.jpg'' ''wood''
      ((SceneManager_new None ctx0)\<lparr>m_loadedTextures := 16\<rparr>)
      = Inl (ArrayIndexOutOfBounds 16)
 \<and> CreateGLTexture_all example_files (replicate 17 (''a.jpg'', ''wood''))
      (SceneManager_new None ctx0)
      = Inl (ArrayIndexOutOfBounds 16)"
proof -
  obtain s' where ok:
    "CreateGLTexture example_files ''a.jpg'' ''wood'' (SceneManager_new None ctx0) = Inr (True, s')"
    by (simp add: CreateGLTexture_def CreateGLTexture_register_def call_def
        genTexture_def example_files_def SceneManager_new_def ctx0_def Let_def)
  have ld: "loadable example_files ''a.jpg''"
    by (simp add: loadable_def example_files_def)
  have a: "m_textureIDs s' =
            (m_textureIDs (SceneManager_new None ctx0))[0 := \<lparr>tex_tag = ''wood'', tex_ID = 1\<rparr>]
        \<and> m_loadedTextures s' = 1"
    and c: "CreateGLTexture_all example_files (replicate 17 (''a.jpg'', ''wood''))
      (SceneManager_new None ctx0) = Inl (ArrayIndexOutOfBounds 16)"
    using CreateGLTexture_no_capacity_check
      [where stbi = example_files and filename = "''a.jpg''" and tag = "''wood''"
         and s = "SceneManager_new None ctx0" and s' = s'
         and reqs = "replicate 17 (''a.jpg'', ''wood'')" and ?s0.0 = "SceneManager_new None ctx0"]
      ok ld
    by (simp_all add: SceneManager_new_def ctx0_def)
  have b: "CreateGLTexture example_files ''a.jpg'' ''wood''
      ((SceneManager_new None ctx0)\<lparr>m_loadedTextures := 16\<rparr>)
      = Inl (ArrayIndexOutOfBounds 16)"
    using CreateGLTexture_no_capacity_check
      [where stbi = example_files and filename = "''a.jpg''" and tag = "''wood''"
         and s = "(SceneManager_new None ctx0)\<lparr>m_loadedTextures := 16\<rparr>"] ld
    by (simp add: SceneManager_new_def)
  show ?thesis using ok a b c by blast
qed

section \<open>Releasing the textures\<close>

text \<open>
  C3. The claim: DestroyGLTextures releases the GPU texture of every registered entry.
  The code calls glGenTextures on every registered entry. After one load on a new scene
  manager (texture name 1 in slot 0), DestroyGLTextures makes exactly one GL call,
  \<open>glGenTextures\<close>, which returns the name 2; slot 0 now holds 2, texture 1 has not
  been deleted and the counter still says one texture is loaded.
\<close>

theorem DestroyGLTextures_generates_instead_of_deleting:
  "\<exists>s. CreateGLTexture example_files ''a.jpg'' ''wood'' (SceneManager_new None ctx0) = Inr (True, s)
      \<and> m_loadedTextures s = 1
      \<and> m_textureIDs s ! 0 = \<lparr>tex_tag = ''wood'', tex_ID = 1\<rparr>
      \<and> (\<exists>s'. DestroyGLTextures s = Inr s'
             \<and> gl_calls (gl s') = gl_calls (gl s) @ [glGenTextures 2]
             \<and> m_textureIDs s' ! 0 = \<lparr>tex_tag = ''wood'', tex_ID = 2\<rparr>
             \<and> m_loadedTextures s' = 1)"
  by (simp add: CreateGLTexture_def CreateGLTexture_register_def call_def
        genTexture_def example_files_def SceneManager_new_def ctx0_def Let_def
        DestroyGLTextures_def DestroyGLTextures_loop.simps [of 0] DestroyGLTextures_loop.simps [of 1])

text \<open>
  In general the calls DestroyGLTextures adds are glGenTextures calls, one per loaded
  texture.
\<close>

lemma DestroyGLTextures_only_generates:
  assumes "m_loadedTextures s \<le> int (length (m_textureIDs s))"
  shows "\<exists>s' names. DestroyGLTextures s = Inr s'
           \<and> gl_calls (gl s') = gl_calls (gl s) @ map glGenTextures names
           \<and> length names = nat (m_loadedTextures s)"
  using DestroyGLTextures_loop_calls [of 0 s] assms by (simp add: DestroyGLTextures_def)

section \<open>The null check on the shader manager\<close>

text \<open>
  C8. The claim: each of the five submission functions checks the shader-manager pointer
  and skips the submission when it is null. SetShaderMaterial has no such check: with
  the seven materials defined, a null shader manager and the tag \<open>gold\<close>, it
  dereferences the null pointer.
\<close>

theorem SetShaderMaterial_null_shader_dereferences:
  "SetShaderMaterial material0 ''gold''
     (DefineObjectMaterials (s\<lparr>m_objectMaterials := [], m_pShaderManager := None\<rparr>))
   = Inl NullPointerDereference"
  by (simp add: SetShaderMaterial_def FindMaterial_eq DefineObjectMaterials_def
      objectMaterials_push_back_def Let_def seq_def setValue_def)

text \<open>
  With a null shader manager SetShaderMaterial returns normally only when no material is
  defined; the other four functions check the pointer and leave the state as it is.
\<close>

lemma SetShaderMaterial_null_shader:
  assumes "m_pShaderManager s = None"
  shows "SetShaderMaterial material0 materialTag s =
           (if m_objectMaterials s = [] then Inr s else Inl NullPointerDereference)"
  using assms
  by (simp add: SetShaderMaterial_def FindMaterial_eq seq_def setValue_def split: option.splits)

lemma SetTransformations_null_shader:
  "m_pShaderManager s = None \<Longrightarrow>
     SetTransformations g scaleXYZ XrotationDegrees YrotationDegrees ZrotationDegrees positionXYZ s
       = Inr s"
  by (simp add: SetTransformations_def Let_def)

lemma SetShaderColor_null_shader:
  "m_pShaderManager s = None \<Longrightarrow> SetShaderColor r g b a s = Inr s"
  by (simp add: SetShaderColor_def Let_def)

lemma SetShaderTexture_null_shader:
  "m_pShaderManager s = None \<Longrightarrow> SetShaderTexture textureTag s = Inr s"
  by (simp add: SetShaderTexture_def)

lemma SetTextureUVScale_null_shader:
  "m_pShaderManager s = None \<Longrightarrow> SetTextureUVScale u v s = Inr s"
  by (simp add: SetTextureUVScale_def)

text \<open>
  With a shader manager attached, SetTransformations submits one uniform, \<open>model\<close>:
  the product, associated to the left, of translation, rotation about Z, rotation about Y,
  rotation about X and scale, whatever glm computes for each factor and each product.
\<close>

lemma SetTransformations_submits:
  "m_pShaderManager s = Some sh \<Longrightarrow>
     SetTransformations g scaleXYZ XrotationDegrees YrotationDegrees ZrotationDegrees positionXYZ s
       = Inr (s\<lparr>m_pShaderManager := Some (sh @ [(''model'', Mat4Value
            (glm_mul g
              (glm_mul g
                (glm_mul g
                  (glm_mul g (glm_translate g positionXYZ)
                     (glm_rotate g (glm_radians g ZrotationDegrees) (f_0_0, f_0_0, f_1_0)))
                  (glm_rotate g (glm_radians g YrotationDegrees) (f_0_0, f_1_0, f_0_0)))
                (glm_rotate g (glm_radians g XrotationDegrees) (f_1_0, f_0_0, f_0_0)))
              (glm_scale g scaleXYZ)))])\<rparr>)"
  by (simp add: SetTransformations_def Let_def setValue_def g_ModelName_def)

end
